theory Spec2Isabelle
  imports Main
begin

section \<open>JavaScript values used by \<^verbatim>\<open>server.js\<close>\<close>

text \<open>
  The program is seven lines of JavaScript on Node.js and Express:
  \<^verbatim>\<open>
  const express = require("express");
  const app = express();
  const PORT = process.env.PORT || 8080;

  app.get("/", (req, res) => res.send("Hello from Node.js app in Kubernetes!"));

  app.listen(PORT, () => console.log(`Server running on port ${PORT}`));
  \<close>
  Only three kinds of value occur: \<^verbatim>\<open>undefined\<close> (an environment variable that is
  not set), strings (an environment variable that is set) and the number literal
  \<^verbatim>\<open>8080\<close>.
\<close>

datatype js_value = JSUndefined | JSString string | JSNumber int

text \<open>
  Truthiness as \<^verbatim>\<open>||\<close> tests it: \<^verbatim>\<open>undefined\<close>, the empty string and
  \<^verbatim>\<open>0\<close> are falsy, every other string and integer is truthy.
\<close>

fun truthy :: "js_value \<Rightarrow> bool" where
  "truthy JSUndefined = False"
| "truthy (JSString s) = (s \<noteq> [])"
| "truthy (JSNumber n) = (n \<noteq> 0)"

text \<open>\<^verbatim>\<open>a || b\<close> is \<^verbatim>\<open>a\<close> itself when \<^verbatim>\<open>a\<close> is truthy and \<^verbatim>\<open>b\<close> otherwise.\<close>

definition js_or :: "js_value \<Rightarrow> js_value \<Rightarrow> js_value" where
  "js_or a b = (if truthy a then a else b)"

text \<open>Decimal digits of a natural number, most significant first.\<close>

definition digit_char :: "nat \<Rightarrow> char" where
  "digit_char d = ''0123456789'' ! d"

fun show_nat :: "nat \<Rightarrow> string" where
  "show_nat n =
     (if n < 10 then [digit_char n]
      else show_nat (n div 10) @ [digit_char (n mod 10)])"

declare show_nat.simps [simp del]

text \<open>
  Strings are sequences of characters with codes below 256.
  String conversion as a template literal \<^verbatim>\<open>`${v}`\<close> performs it on the values
  above.
\<close>

fun to_string :: "js_value \<Rightarrow> string" where
  "to_string JSUndefined = ''undefined''"
| "to_string (JSString s) = s"
| "to_string (JSNumber n) =
     (if n < 0 then CHR ''-'' # show_nat (nat (- n)) else show_nat (nat n))"

section \<open>Configuration\<close>

text \<open>
  \<^verbatim>\<open>process.env\<close> maps variable names to strings; reading a variable that is not
  set gives \<^verbatim>\<open>undefined\<close>.
\<close>

type_synonym environment = "string \<rightharpoonup> string"

definition env_get :: "environment \<Rightarrow> string \<Rightarrow> js_value" where
  "env_get env name = (case env name of None \<Rightarrow> JSUndefined | Some s \<Rightarrow> JSString s)"

text \<open>Line 3: \<^verbatim>\<open>const PORT = process.env.PORT || 8080;\<close>\<close>

definition PORT_of :: "environment \<Rightarrow> js_value" where
  "PORT_of env = js_or (env_get env ''PORT'') (JSNumber 8080)"

section \<open>HTTP requests and responses\<close>

text \<open>
  A request as it arrives: the method, the request target split into path name
  (\<^verbatim>\<open>req.path\<close>; empty when the target has none) and query string, the protocol
  version (\<^verbatim>\<open>httpVersionMajor\<close>, \<^verbatim>\<open>httpVersionMinor\<close>) and the header object
  (\<^verbatim>\<open>req.headers\<close>, names in lower case, one entry per name).
  \<open>OtherMethod m\<close> stands for a method whose name \<open>m\<close> is none of the nine
  written out.
\<close>

datatype http_method =
  GET | HEAD | POST | PUT | DELETE | PATCH | OPTIONS | CONNECT | TRACE | OtherMethod string

record request =
  req_method :: http_method
  req_path :: string
  req_query :: string
  req_version :: "nat \<times> nat"
  req_headers :: "(string \<times> string) list"

text \<open>
  Of a response the model keeps the status code, the \<^verbatim>\<open>Content-Type\<close> header
  (\<open>None\<close> when the header is not sent) and the body. An interim
  \<^verbatim>\<open>100 Continue\<close> is not a response of its own.
\<close>

record response =
  statusCode :: nat
  content_type :: "string option"
  body :: string

section \<open>The platform: Node.js 18 and Express\<close>

text \<open>
  The Dockerfile fixes the runtime (\<^verbatim>\<open>FROM node:18\<close>). \<^verbatim>\<open>server.js\<close> calls
  \<^verbatim>\<open>app.get\<close>, \<^verbatim>\<open>res.send\<close> and \<^verbatim>\<open>app.listen\<close> of the Express package,
  which the repository installs with \<^verbatim>\<open>npm install express\<close> and does not pin to a
  version. The sections below follow the functions of Node.js (\<^verbatim>\<open>lib/net.js\<close>,
  \<^verbatim>\<open>lib/_http_server.js\<close>) and of Express (\<^verbatim>\<open>lib/response.js\<close>,
  \<^verbatim>\<open>lib/request.js\<close>, the router, the packages \<^verbatim>\<open>fresh\<close> and
  \<^verbatim>\<open>finalhandler\<close>) as far as the program reaches them. Where the major versions 4
  and 5 of Express differ the version is a parameter. Four functions are parameters as
  well:
  \<^item> \<open>etag_fn\<close>, the entity tag of a body (package \<^verbatim>\<open>etag\<close>, a SHA-1 digest);
  \<^item> \<open>error_page\<close>, the HTML page that \<^verbatim>\<open>finalhandler\<close> renders for a request
    that no route answers;
  \<^item> \<open>parse_error\<close>, the verdict of the HTTP server of Node.js on a request as it
    is received: \<open>None\<close> when it accepts the request, otherwise the failure, which
    Node.js answers by itself;
  \<^item> \<open>Number_of\<close>, the conversion \<^verbatim>\<open>Number(s)\<close> of a string, by what
    \<^verbatim>\<open>listen\<close> asks of the result.
\<close>

datatype express_version = Express4 | Express5

text \<open>
  \<^verbatim>\<open>socketOnError\<close> of the HTTP server: a header block beyond the size limit is
  answered 431, a request that did not arrive in time 408, every other refusal
  (malformed bytes, a method the parser does not know, an empty request target, a
  missing \<^verbatim>\<open>Host\<close> header where the version of Node.js insists on one) 400.
\<close>

datatype parse_failure = BadRequest | RequestTimeout | HeaderOverflow

fun failure_status :: "parse_failure \<Rightarrow> nat" where
  "failure_status BadRequest = 400"
| "failure_status RequestTimeout = 408"
| "failure_status HeaderOverflow = 431"

text \<open>
  The value of \<^verbatim>\<open>Number(s)\<close>: \<^verbatim>\<open>NaN\<close>; a number below zero; a whole number
  from zero on (\<^verbatim>\<open>-0\<close> included); any other number from zero on (a fraction or
  \<^verbatim>\<open>Infinity\<close>).
\<close>

datatype number_class = NotANumber | Negative | Whole nat | NotWhole

record platform =
  version :: express_version
  etag_fn :: "string \<Rightarrow> string"
  error_page :: "http_method \<Rightarrow> string \<Rightarrow> string"
  parse_error :: "request \<Rightarrow> parse_failure option"
  Number_of :: "string \<Rightarrow> number_class"

subsection \<open>Freshness of a conditional request (package \<^verbatim>\<open>fresh\<close>)\<close>

text \<open>A header value as a JavaScript condition: absent and empty are falsy.\<close>

fun given :: "string option \<Rightarrow> bool" where
  "given None = False"
| "given (Some s) = (s \<noteq> [])"

text \<open>
  The characters that \<^verbatim>\<open>\s\<close> matches among the bytes a header value can hold.
\<close>

definition is_space :: "char \<Rightarrow> bool" where
  "is_space c = (c \<in> set [CHR '' '', CHR 0x09, CHR 0x0A, CHR 0x0B, CHR 0x0C, CHR 0x0D, CHR 0xA0])"

definition trim_space :: "string \<Rightarrow> string" where
  "trim_space s = rev (dropWhile is_space (rev (dropWhile is_space s)))"

fun split_on :: "char \<Rightarrow> string \<Rightarrow> string list" where
  "split_on c [] = [[]]"
| "split_on c (x # xs) =
     (if x = c then [] # split_on c xs
      else (case split_on c xs of
              [] \<Rightarrow> [[x]]
            | t # ts \<Rightarrow> (x # t) # ts))"

text \<open>
  \<^verbatim>\<open>CACHE_CONTROL_NO_CACHE_REGEXP = /(?:^|,)\s*?no-cache\s*?(?:,|$)/\<close>: some
  comma-separated element of the header is \<^verbatim>\<open>no-cache\<close> with white space around it.
\<close>

definition no_cache :: "string \<Rightarrow> bool" where
  "no_cache cacheControl =
     (''no-cache'' \<in> set (map trim_space (split_on CHR '','' cacheControl)))"

definition substring :: "string \<Rightarrow> nat \<Rightarrow> nat \<Rightarrow> string" where
  "substring str start end = take (end - start) (drop start str)"

text \<open>
  \<^verbatim>\<open>parseTokenList\<close>: the loop over the character codes of \<^verbatim>\<open>str\<close>, with the
  index \<open>i\<close>, the token bounds \<open>start\<close> and \<open>end\<close> and the list gathered so far. A
  space before a token moves both bounds, a comma closes the token, any other character
  extends it.
\<close>

fun parseTokenList_loop ::
  "string \<Rightarrow> string \<Rightarrow> nat \<Rightarrow> nat \<Rightarrow> nat \<Rightarrow> string list \<Rightarrow> string list" where
  "parseTokenList_loop str [] i start end list = list @ [substring str start end]"
| "parseTokenList_loop str (c # cs) i start end list =
     (if c = CHR '' '' then
        (if start = end then parseTokenList_loop str cs (i + 1) (i + 1) (i + 1) list
         else parseTokenList_loop str cs (i + 1) start end list)
      else if c = CHR '','' then
        parseTokenList_loop str cs (i + 1) (i + 1) (i + 1) (list @ [substring str start end])
      else parseTokenList_loop str cs (i + 1) start (i + 1) list)"

definition parseTokenList :: "string \<Rightarrow> string list" where
  "parseTokenList str = parseTokenList_loop str str 0 0 0 []"

text \<open>
  \<^verbatim>\<open>match === etag || match === 'W/' + etag || 'W/' + match === etag\<close>
\<close>

definition etag_match :: "string \<Rightarrow> string \<Rightarrow> bool" where
  "etag_match etag m = (m = etag \<or> m = ''W/'' @ etag \<or> ''W/'' @ m = etag)"

text \<open>
  \<^verbatim>\<open>fresh(reqHeaders, resHeaders)\<close>. The response never carries
  \<^verbatim>\<open>Last-Modified\<close> (nothing sets it), so \<^verbatim>\<open>modifiedStale\<close> is true whenever
  \<^verbatim>\<open>If-Modified-Since\<close> is examined. Express 4 depends on \<^verbatim>\<open>fresh\<close> 0.5, where
  a passing \<^verbatim>\<open>If-None-Match\<close> still goes on to the date test; Express 5 depends on
  \<^verbatim>\<open>fresh\<close> 2, where \<^verbatim>\<open>If-None-Match\<close> decides alone.
\<close>

definition fresh :: "express_version \<Rightarrow> (string \<times> string) list \<Rightarrow> string option \<Rightarrow> bool" where
  "fresh v reqHeaders etag =
     (let modifiedSince = map_of reqHeaders ''if-modified-since'';
          noneMatch = map_of reqHeaders ''if-none-match'';
          cacheControl = map_of reqHeaders ''cache-control'';
          etagListed =
            (case (noneMatch, etag) of
               (Some nm, Some e) \<Rightarrow> e \<noteq> [] \<and> list_ex (etag_match e) (parseTokenList nm)
             | _ \<Rightarrow> False)
      in
        if \<not> given modifiedSince \<and> \<not> given noneMatch then False
        else if (case cacheControl of None \<Rightarrow> False | Some cc \<Rightarrow> no_cache cc) then False
        else (case v of
           Express4 \<Rightarrow>
             (if given noneMatch \<and> noneMatch \<noteq> Some ''*'' \<and> \<not> etagListed then False
              else if given modifiedSince then False
              else True)
         | Express5 \<Rightarrow>
             (if given noneMatch then
                (if noneMatch = Some ''*'' then True else etagListed)
              else if given modifiedSince then False
              else True)))"

subsection \<open>\<^verbatim>\<open>req.fresh\<close> and \<^verbatim>\<open>res.send\<close>\<close>

text \<open>
  \<^verbatim>\<open>req.fresh\<close>: only for GET and HEAD, and only when the status is 2xx or 304.
\<close>

definition req_fresh :: "platform \<Rightarrow> request \<Rightarrow> nat \<Rightarrow> string option \<Rightarrow> bool" where
  "req_fresh lib req status etag =
     (if req_method req \<noteq> GET \<and> req_method req \<noteq> HEAD then False
      else if (200 \<le> status \<and> status < 300) \<or> status = 304
        then fresh (version lib) (req_headers req) etag
      else False)"

text \<open>
  \<^verbatim>\<open>res.send(chunk)\<close> with a string, on a response whose status (200) and headers
  have not been touched, which is how the program calls it. A string body with no
  \<^verbatim>\<open>Content-Type\<close> set gets \<^verbatim>\<open>this.type('html')\<close> and the charset
  \<^verbatim>\<open>utf-8\<close>; the entity tag is generated (the \<^verbatim>\<open>etag\<close> setting is on by default);
  a fresh request turns the status into 304; a 204 or 304 loses \<^verbatim>\<open>Content-Type\<close>
  and the body; a HEAD request gets no body.
\<close>

definition res_send :: "platform \<Rightarrow> request \<Rightarrow> string \<Rightarrow> response" where
  "res_send lib req chunk =
     (let etag = etag_fn lib chunk;
          status = (if req_fresh lib req 200 (Some etag) then 304 else 200)
      in
        if status = 204 \<or> status = 304
          then \<lparr>statusCode = status, content_type = None, body = []\<rparr>
        else \<lparr>statusCode = status,
               content_type = Some ''text/html; charset=utf-8'',
               body = (if req_method req = HEAD then [] else chunk)\<rparr>)"

subsection \<open>Routing\<close>

text \<open>
  \<^verbatim>\<open>app.get("/", ...)\<close> adds one route with the single method \<^verbatim>\<open>get\<close>.
  \<^verbatim>\<open>Route.prototype._handles_method\<close>: a HEAD request is served by the GET
  handler when the route has no HEAD handler of its own.
\<close>

definition handles_method :: "http_method \<Rightarrow> bool" where
  "handles_method m = ((if m = HEAD then GET else m) = GET)"

text \<open>
  The layer of the route matches the path name against the regular expression that
  \<^verbatim>\<open>path-to-regexp\<close> builds for \<^verbatim>\<open>"/"\<close> with strict routing off (the default):
  \<^verbatim>\<open>/^\/?$/i\<close> in Express 4 and \<^verbatim>\<open>/^(?:\/)(?:\/$)?$/i\<close> in Express 5.
\<close>

definition layer_match :: "express_version \<Rightarrow> string \<Rightarrow> bool" where
  "layer_match v p =
     (case v of
        Express4 \<Rightarrow> p = ''/'' \<or> p = []
      | Express5 \<Rightarrow> p = ''/'' \<or> p = ''//'')"

text \<open>
  \<^verbatim>\<open>finalhandler\<close>, reached when no route answers: status 404 and an HTML page, without
  the page for HEAD.
\<close>

definition not_found :: "platform \<Rightarrow> request \<Rightarrow> response" where
  "not_found lib req =
     \<lparr>statusCode = 404,
      content_type = Some ''text/html; charset=utf-8'',
      body = (if req_method req = HEAD then [] else error_page lib (req_method req) (req_path req))\<rparr>"

text \<open>
  The automatic answer to OPTIONS on a path that has a route: the methods of the route
  (\<^verbatim>\<open>_options()\<close> adds HEAD to GET). Express 4 sends the list with
  \<^verbatim>\<open>res.send\<close>; the router of Express 5 writes it as plain text.
\<close>

definition options_response :: "platform \<Rightarrow> request \<Rightarrow> response" where
  "options_response lib req =
     (case version lib of
        Express4 \<Rightarrow> res_send lib req ''GET,HEAD''
      | Express5 \<Rightarrow> \<lparr>statusCode = 200, content_type = Some ''text/plain'', body = ''GET, HEAD''\<rparr>)"

section \<open>The application\<close>

text \<open>
  Line 5:
  \<^verbatim>\<open>app.get("/", (req, res) => res.send("Hello from Node.js app in Kubernetes!"));\<close>
\<close>

definition greeting :: string where
  "greeting = ''Hello from Node.js app in Kubernetes!''"

definition root_handler :: "platform \<Rightarrow> request \<Rightarrow> response" where
  "root_handler lib req = res_send lib req greeting"

text \<open>
  The router's pass over the one route of the application. A request without a path
  name ends at once (\<^verbatim>\<open>if (path == null) return done(layerError)\<close>). Otherwise the
  path is matched first, then the method; an OPTIONS request that matched a path gets
  the automatic answer; everything else falls through to \<open>not_found\<close>.
\<close>

definition app_handle :: "platform \<Rightarrow> request \<Rightarrow> response" where
  "app_handle lib req =
     (if req_path req = [] then not_found lib req
      else if layer_match (version lib) (req_path req) then
        (if handles_method (req_method req) then root_handler lib req
         else if req_method req = OPTIONS then options_response lib req
         else not_found lib req)
      else not_found lib req)"

section \<open>The HTTP server of Node.js in front of the application\<close>

text \<open>
  \<^verbatim>\<open>continueExpression = /(?:^|\W)100-continue(?:$|\W)/i\<close>: the text
  \<^verbatim>\<open>100-continue\<close> in either case, with no word character right before or right
  after it.
\<close>

definition word_char :: "char \<Rightarrow> bool" where
  "word_char c =
     (c \<in> set ''ABCDEFGHIJKLMNOPQRSTUVWXYZabcdefghijklmnopqrstuvwxyz0123456789_'')"

fun match_ci :: "(char \<times> char) list \<Rightarrow> string \<Rightarrow> string option" where
  "match_ci [] s = Some s"
| "match_ci ((l, u) # ps) [] = None"
| "match_ci ((l, u) # ps) (c # cs) = (if c = l \<or> c = u then match_ci ps cs else None)"

fun continue_from :: "bool \<Rightarrow> string \<Rightarrow> bool" where
  "continue_from boundary [] = False"
| "continue_from boundary (c # cs) =
     (if boundary \<and>
         (case match_ci (zip ''100-continue'' ''100-CONTINUE'') (c # cs) of
            None \<Rightarrow> False
          | Some [] \<Rightarrow> True
          | Some (d # ds) \<Rightarrow> \<not> word_char d)
      then True
      else continue_from (\<not> word_char c) cs)"

definition continueExpression :: "string \<Rightarrow> bool" where
  "continueExpression s = continue_from True s"

text \<open>
  \<^verbatim>\<open>parserOnIncoming\<close>, for a server with no listener for
  \<^verbatim>\<open>'checkContinue'\<close> or \<^verbatim>\<open>'checkExpectation'\<close>: an HTTP/1.1 request with an
  \<^verbatim>\<open>Expect\<close> header that is not \<^verbatim>\<open>100-continue\<close> is answered 417 and never
  reaches the application.
\<close>

definition expectation_failed :: "request \<Rightarrow> bool" where
  "expectation_failed req =
     (req_version req = (1, 1) \<and>
      (case map_of (req_headers req) ''expect'' of
         None \<Rightarrow> False
       | Some e \<Rightarrow> \<not> continueExpression e))"

text \<open>What Node.js answers by itself: a status line, no \<^verbatim>\<open>Content-Type\<close>, no body.\<close>

definition node_response :: "nat \<Rightarrow> response" where
  "node_response status = \<lparr>statusCode = status, content_type = None, body = []\<rparr>"

text \<open>
  The server as a whole; \<open>None\<close> is a connection closed without a response.
  A request that is refused is answered by \<^verbatim>\<open>socketOnError\<close>. The connection
  of a CONNECT request is destroyed, there being no listener for \<^verbatim>\<open>'connect'\<close>.
  Then \<^verbatim>\<open>parserOnIncoming\<close> decides, and the \<^verbatim>\<open>'request'\<close> event hands the
  request to the application.
\<close>

definition server_handle :: "platform \<Rightarrow> request \<Rightarrow> response option" where
  "server_handle lib req =
     (case parse_error lib req of
        Some f \<Rightarrow> Some (node_response (failure_status f))
      | None \<Rightarrow>
          if req_method req = CONNECT then None
          else if expectation_failed req then Some (node_response 417)
          else Some (app_handle lib req))"

section \<open>Listening\<close>

text \<open>
  What \<^verbatim>\<open>server.listen(PORT, callback)\<close> makes of its first argument
  (\<^verbatim>\<open>normalizeArgs\<close>, \<^verbatim>\<open>isPipeName\<close>, \<^verbatim>\<open>toNumber\<close> and
  \<^verbatim>\<open>validatePort\<close>). A string whose number is \<^verbatim>\<open>NaN\<close> or negative is the path
  of a pipe. Anything else is a port, which must be a whole number up to 65535 and, as
  a string, not only white space; otherwise \<^verbatim>\<open>validatePort\<close> throws
  \<^verbatim>\<open>ERR_SOCKET_BAD_PORT\<close>. \<^verbatim>\<open>undefined\<close> and the port 0 let the system choose
  a port.
\<close>

datatype listen_target = TcpPort nat | PipePath string | BadPort

definition listen_target :: "platform \<Rightarrow> js_value \<Rightarrow> listen_target" where
  "listen_target lib port =
     (case port of
        JSUndefined \<Rightarrow> TcpPort 0
      | JSNumber n \<Rightarrow> (if 0 \<le> n \<and> n \<le> 65535 then TcpPort (nat n) else BadPort)
      | JSString s \<Rightarrow>
          (case Number_of lib s of
             NotANumber \<Rightarrow> PipePath s
           | Negative \<Rightarrow> PipePath s
           | NotWhole \<Rightarrow> BadPort
           | Whole n \<Rightarrow>
               (if trim_space s = [] then BadPort
                else if n \<le> 65535 then TcpPort n
                else BadPort)))"

text \<open>The address a server is bound to, and which addresses a target can end up at.\<close>

datatype address = TcpAddress nat | PipeAddress string

fun binds :: "listen_target \<Rightarrow> address \<Rightarrow> bool" where
  "binds (TcpPort n) (TcpAddress m) = (if n = 0 then 0 < m \<and> m \<le> 65535 else m = n)"
| "binds (PipePath s) (PipeAddress t) = (t = s)"
| "binds (TcpPort n) (PipeAddress t) = False"
| "binds (PipePath s) (TcpAddress m) = False"
| "binds BadPort a = False"

section \<open>The process\<close>

text \<open>
  The states of the service: \<open>Starting\<close> until the socket is bound, \<open>Serving\<close>
  afterwards, \<open>Exited c\<close> once the process has ended with status \<open>c\<close>.
\<close>

datatype phase = Starting | Serving | Exited nat

datatype listen_error = EADDRINUSE | EACCES

datatype uncaught_error = ListenFailed listen_error | BadPortError

datatype signal = SIGINT | SIGTERM

fun signum :: "signal \<Rightarrow> nat" where
  "signum SIGINT = 2"
| "signum SIGTERM = 15"

text \<open>
  The process: the constant \<^verbatim>\<open>PORT\<close>, the state, the first argument of every call
  of \<^verbatim>\<open>app.listen\<close>, the address bound, the lines written to standard output, the
  uncaught errors that the runtime has reported, and the responses sent. The report of
  an uncaught error goes to standard error and is many lines long (the source position,
  the message with the error's code and address, the stack trace, the version of
  Node.js); the model keeps which error it reports. What Node.js or Express write to
  standard error on their own account (debug output under \<^verbatim>\<open>NODE_DEBUG\<close> or
  \<^verbatim>\<open>DEBUG\<close>, warnings) is not part of the model.
\<close>

record process =
  PORT :: js_value
  phase :: phase
  listen_args :: "js_value list"
  bound :: "address option"
  stdout :: "string list"
  uncaught :: "uncaught_error list"
  sent :: "response list"

text \<open>
  Running the module: lines 1 to 5 build the application and the constant, line 7 calls
  \<^verbatim>\<open>app.listen(PORT, callback)\<close> once. When \<^verbatim>\<open>validatePort\<close> throws, nothing
  catches the error: the runtime reports it and the process exits with status 1.
  Otherwise binding happens afterwards; its outcome is an event.
\<close>

definition main :: "platform \<Rightarrow> environment \<Rightarrow> process" where
  "main lib env =
     (if listen_target lib (PORT_of env) = BadPort then
        \<lparr>PORT = PORT_of env, phase = Exited 1, listen_args = [PORT_of env], bound = None,
         stdout = [], uncaught = [BadPortError], sent = []\<rparr>
      else
        \<lparr>PORT = PORT_of env, phase = Starting, listen_args = [PORT_of env], bound = None,
         stdout = [], uncaught = [], sent = []\<rparr>)"

text \<open>
  The callback of line 7, \<^verbatim>\<open>() => console.log(`Server running on port ${PORT}`)\<close>:
  it takes no argument and writes one line.
\<close>

definition listen_callback :: "process \<Rightarrow> process" where
  "listen_callback p = p\<lparr>stdout := stdout p @ [''Server running on port '' @ to_string (PORT p)]\<rparr>"

datatype event = Listening address | ListenError listen_error | Request request | Signal signal

text \<open>
  One event of the running process.
  \<^item> \<open>Listening a\<close>: the socket is bound to \<open>a\<close>, an address that the argument of
    \<^verbatim>\<open>listen\<close> allows; the server emits \<^verbatim>\<open>'listening'\<close> and the callback runs.
  \<^item> \<open>ListenError\<close>: binding failed; the server emits \<^verbatim>\<open>'error'\<close>. The program
    registers no listener for it. \<^verbatim>\<open>app.listen\<close> of Express 4 registers none
    either, so the error is thrown as an uncaught exception: the runtime reports it and
    the process exits with status 1. \<^verbatim>\<open>app.listen\<close> of Express 5 registers the
    callback for \<^verbatim>\<open>'error'\<close> too (\<^verbatim>\<open>server.once('error', done)\<close>): the callback of
    line 7 ignores the error and writes its line, and with no open handle left the
    process ends with status 0.
  \<^item> \<open>Request\<close>: while serving, the server answers; before that no connection is
    accepted.
  \<^item> \<open>Signal\<close>: the program installs no signal handler, and the default handler of
    Node.js for SIGINT and SIGTERM exits with status 128 + the signal number.
  An event that cannot happen in the state leaves it as it is, and nothing happens to a
  process that has exited. Errors of a socket that is already bound (the system running
  out of file descriptors) are not among the events.
\<close>

definition step :: "platform \<Rightarrow> process \<Rightarrow> event \<Rightarrow> process" where
  "step lib p ev =
     (case phase p of
        Exited c \<Rightarrow> p
      | Starting \<Rightarrow>
          (case ev of
             Listening a \<Rightarrow>
               (if binds (listen_target lib (PORT p)) a
                then (listen_callback p)\<lparr>phase := Serving, bound := Some a\<rparr>
                else p)
           | ListenError e \<Rightarrow>
               (case version lib of
                  Express4 \<Rightarrow> p\<lparr>uncaught := uncaught p @ [ListenFailed e], phase := Exited 1\<rparr>
                | Express5 \<Rightarrow> (listen_callback p)\<lparr>phase := Exited 0\<rparr>)
           | Request req \<Rightarrow> p
           | Signal s \<Rightarrow> p\<lparr>phase := Exited (128 + signum s)\<rparr>)
      | Serving \<Rightarrow>
          (case ev of
             Listening a \<Rightarrow> p
           | ListenError e \<Rightarrow> p
           | Request req \<Rightarrow>
               (case server_handle lib req of
                  None \<Rightarrow> p
                | Some r \<Rightarrow> p\<lparr>sent := sent p @ [r]\<rparr>)
           | Signal s \<Rightarrow> p\<lparr>phase := Exited (128 + signum s)\<rparr>))"

fun run :: "platform \<Rightarrow> process \<Rightarrow> event list \<Rightarrow> process" where
  "run lib p [] = p"
| "run lib p (ev # evs) = run lib (step lib p ev) evs"

subsection \<open>Instances for concrete runs\<close>

text \<open>
  Stand-ins for the four parameters, used where a property is evaluated on a concrete
  input.
  \<^item> \<open>length_tag\<close>: a tag made of the body's length.
  \<^item> \<open>cannot_page\<close>: the text of the error page without its HTML frame.
  \<^item> \<open>parser_plain\<close>: refuses a method whose name is not in \<^verbatim>\<open>http.METHODS\<close> and
    a request without a path, as the parser does, and accepts every other request; the
    parser also refuses malformed bytes and a header block beyond its limit (16 KiB),
    which the requests below do not have.
  \<^item> \<open>Number_decimal\<close>: \<^verbatim>\<open>Number(s)\<close> for the empty string and for strings of
    decimal digits, and \<^verbatim>\<open>NaN\<close> for every other string; that is the value of
    \<^verbatim>\<open>Number\<close> where \<open>s\<close> is no numeric literal, and not where \<open>s\<close> is a
    literal of another form (a sign, a fraction, an exponent, a radix prefix, white
    space around it, \<^verbatim>\<open>Infinity\<close>).
\<close>

fun method_name :: "http_method \<Rightarrow> string" where
  "method_name GET = ''GET''"
| "method_name HEAD = ''HEAD''"
| "method_name POST = ''POST''"
| "method_name PUT = ''PUT''"
| "method_name DELETE = ''DELETE''"
| "method_name PATCH = ''PATCH''"
| "method_name OPTIONS = ''OPTIONS''"
| "method_name CONNECT = ''CONNECT''"
| "method_name TRACE = ''TRACE''"
| "method_name (OtherMethod m) = m"

definition length_tag :: "string \<Rightarrow> string" where
  "length_tag chunk = ''W/'' @ show_nat (length chunk)"

definition cannot_page :: "http_method \<Rightarrow> string \<Rightarrow> string" where
  "cannot_page m p = ''Cannot '' @ method_name m @ '' '' @ p"

definition other_methods :: "string list" where
  "other_methods =
     [''ACL'', ''BIND'', ''CHECKOUT'', ''COPY'', ''LINK'', ''LOCK'', ''M-SEARCH'', ''MERGE'',
      ''MKACTIVITY'', ''MKCALENDAR'', ''MKCOL'', ''MOVE'', ''NOTIFY'', ''PROPFIND'',
      ''PROPPATCH'', ''PURGE'', ''REBIND'', ''REPORT'', ''SEARCH'', ''SOURCE'', ''SUBSCRIBE'',
      ''UNBIND'', ''UNLINK'', ''UNLOCK'', ''UNSUBSCRIBE'']"

definition parser_plain :: "request \<Rightarrow> parse_failure option" where
  "parser_plain req =
     (if (case req_method req of OtherMethod m \<Rightarrow> m \<notin> set other_methods | _ \<Rightarrow> False)
        then Some BadRequest
      else if req_path req = [] then Some BadRequest
      else None)"

fun decimal_value :: "nat \<Rightarrow> string \<Rightarrow> nat option" where
  "decimal_value acc [] = Some acc"
| "decimal_value acc (c # cs) =
     (case map_of (zip ''0123456789'' [0, 1, 2, 3, 4, 5, 6, 7, 8, 9]) c of
        None \<Rightarrow> None
      | Some d \<Rightarrow> decimal_value (10 * acc + d) cs)"

definition Number_decimal :: "string \<Rightarrow> number_class" where
  "Number_decimal s = (case decimal_value 0 s of None \<Rightarrow> NotANumber | Some n \<Rightarrow> Whole n)"

definition express4 :: platform where
  "express4 =
     \<lparr>version = Express4, etag_fn = length_tag, error_page = cannot_page,
      parse_error = parser_plain, Number_of = Number_decimal\<rparr>"

definition express5 :: platform where
  "express5 =
     \<lparr>version = Express5, etag_fn = length_tag, error_page = cannot_page,
      parse_error = parser_plain, Number_of = Number_decimal\<rparr>"

text \<open>Requests used below, all of HTTP/1.1.\<close>

definition get_root :: request where
  "get_root =
     \<lparr>req_method = GET, req_path = ''/'', req_query = [], req_version = (1, 1),
      req_headers = []\<rparr>"

definition get_root_if_none_match :: request where
  "get_root_if_none_match =
     \<lparr>req_method = GET, req_path = ''/'', req_query = [], req_version = (1, 1),
      req_headers = [(''if-none-match'', ''*'')]\<rparr>"

definition get_root_expect :: request where
  "get_root_expect =
     \<lparr>req_method = GET, req_path = ''/'', req_query = [], req_version = (1, 1),
      req_headers = [(''expect'', ''foo'')]\<rparr>"

definition get_root_with_query_and_agent :: request where
  "get_root_with_query_and_agent =
     \<lparr>req_method = GET, req_path = ''/'', req_query = ''x=1'', req_version = (1, 1),
      req_headers = [(''user-agent'', ''curl/8.5.0''), (''accept'', ''*/*'')]\<rparr>"



section \<open>Properties of the model\<close>

lemma show_nat_8080: "show_nat 8080 = ''8080''"
  by (simp add: show_nat.simps digit_char_def)

lemma PORT_of_default:
  "env ''PORT'' = None \<or> env ''PORT'' = Some [] \<Longrightarrow> PORT_of env = JSNumber 8080"
  by (auto simp add: PORT_of_def env_get_def js_or_def)


lemma listen_target_default: "listen_target lib (JSNumber 8080) = TcpPort 8080"
  by (simp add: listen_target_def)

lemma main_default:
  "PORT_of env = JSNumber 8080 \<Longrightarrow>
   main lib env =
     \<lparr>PORT = JSNumber 8080, phase = Starting, listen_args = [JSNumber 8080], bound = None,
      stdout = [], uncaught = [], sent = []\<rparr>"
  by (simp add: main_def listen_target_default)

lemma main_bad_port:
  "listen_target lib (PORT_of env) = BadPort \<Longrightarrow>
   phase (main lib env) = Exited 1 \<and> uncaught (main lib env) = [BadPortError] \<and>
   stdout (main lib env) = []"
  by (simp add: main_def)

lemma main_port_99999:
  "main express4 [''PORT'' \<mapsto> ''99999''] =
     \<lparr>PORT = JSString ''99999'', phase = Exited 1, listen_args = [JSString ''99999''],
      bound = None, stdout = [], uncaught = [BadPortError], sent = []\<rparr>"
  by (simp add: main_def PORT_of_def env_get_def js_or_def listen_target_def express4_def
      Number_decimal_def trim_space_def is_space_def)

lemma step_exited: "phase p = Exited c \<Longrightarrow> step lib p ev = p"
  by (simp add: step_def)

lemma run_exited: "phase p = Exited c \<Longrightarrow> run lib p evs = p"
  by (induction evs) (simp_all add: step_exited)

lemma step_PORT: "PORT (step lib p ev) = PORT p"
  by (simp add: step_def listen_callback_def
      split: phase.split event.split express_version.split option.split)

lemma step_listen_args: "listen_args (step lib p ev) = listen_args p"
  by (simp add: step_def listen_callback_def
      split: phase.split event.split express_version.split option.split)

lemma run_PORT: "PORT (run lib p evs) = PORT p"
  by (induction evs arbitrary: p) (simp_all add: step_PORT)

lemma run_listen_args: "listen_args (run lib p evs) = listen_args p"
  by (induction evs arbitrary: p) (simp_all add: step_listen_args)

lemma step_serving_out:
  "phase p = Serving \<Longrightarrow>
     stdout (step lib p ev) = stdout p \<and> uncaught (step lib p ev) = uncaught p \<and>
     bound (step lib p ev) = bound p \<and>
     (phase (step lib p ev) = Serving \<or> (\<exists>s. phase (step lib p ev) = Exited (128 + signum s)))"
  by (cases ev) (auto simp add: step_def split: option.split)

lemma run_serving_out:
  "phase p = Serving \<or> (\<exists>s. phase p = Exited (128 + signum s)) \<Longrightarrow>
     stdout (run lib p evs) = stdout p \<and> uncaught (run lib p evs) = uncaught p \<and>
     bound (run lib p evs) = bound p \<and>
     (phase (run lib p evs) = Serving \<or> (\<exists>s. phase (run lib p evs) = Exited (128 + signum s)))"
proof (induction evs arbitrary: p)
  case Nil
  then show ?case by simp
next
  case (Cons ev evs)
  from Cons.prems show ?case
  proof
    assume s: "phase p = Serving"
    have a: "stdout (step lib p ev) = stdout p" "uncaught (step lib p ev) = uncaught p"
        "bound (step lib p ev) = bound p"
      and b: "phase (step lib p ev) = Serving \<or> (\<exists>s. phase (step lib p ev) = Exited (128 + signum s))"
      using step_serving_out [OF s, of lib ev] by simp_all
    show ?thesis using Cons.IH [OF b] a by simp
  next
    assume "\<exists>s. phase p = Exited (128 + signum s)"
    then obtain s where e: "phase p = Exited (128 + signum s)" ..
    have "step lib p ev = p" using e by (rule step_exited)
    then show ?thesis using Cons.IH [of p] Cons.prems by simp
  qed
qed

lemma started:
  assumes "binds (listen_target lib (PORT_of env)) a"
  shows "step lib (main lib env) (Listening a) =
           \<lparr>PORT = PORT_of env, phase = Serving, listen_args = [PORT_of env], bound = Some a,
            stdout = [''Server running on port '' @ to_string (PORT_of env)],
            uncaught = [], sent = []\<rparr>"
proof -
  have "listen_target lib (PORT_of env) \<noteq> BadPort" using assms by auto
  then show ?thesis using assms by (simp add: step_def main_def listen_callback_def)
qed

lemma fresh_without_if_none_match:
  "\<not> given (map_of hs ''if-none-match'') \<Longrightarrow> \<not> fresh v hs etag"
  by (simp add: fresh_def Let_def split: express_version.split)

lemma fresh_cong:
  "map_of hs ''if-none-match'' = map_of hs' ''if-none-match'' \<Longrightarrow>
   map_of hs ''if-modified-since'' = map_of hs' ''if-modified-since'' \<Longrightarrow>
   map_of hs ''cache-control'' = map_of hs' ''cache-control'' \<Longrightarrow>
   fresh v hs etag = fresh v hs' etag"
  by (simp add: fresh_def Let_def)

lemma fresh_char:
  "fresh v hs (Some e) =
     (given (map_of hs ''if-none-match'') \<and>
      \<not> (case map_of hs ''cache-control'' of None \<Rightarrow> False | Some cc \<Rightarrow> no_cache cc) \<and>
      (map_of hs ''if-none-match'' = Some ''*'' \<or>
       (e \<noteq> [] \<and> (\<exists>nm. map_of hs ''if-none-match'' = Some nm \<and> list_ex (etag_match e) (parseTokenList nm)))) \<and>
      (v = Express4 \<longrightarrow> \<not> given (map_of hs ''if-modified-since'')))"
  by (cases v; cases "map_of hs ''if-none-match''") (auto simp add: fresh_def Let_def)

lemma root_handler_cases:
  "root_handler lib req =
     (if (req_method req = GET \<or> req_method req = HEAD) \<and>
         fresh (version lib) (req_headers req) (Some (etag_fn lib greeting))
      then \<lparr>statusCode = 304, content_type = None, body = []\<rparr>
      else \<lparr>statusCode = 200, content_type = Some ''text/html; charset=utf-8'',
             body = (if req_method req = HEAD then [] else greeting)\<rparr>)"
  by (simp add: root_handler_def res_send_def req_fresh_def Let_def)

lemma app_handle_get_root:
  "req_method req = GET \<Longrightarrow> req_path req = ''/'' \<Longrightarrow>
   app_handle lib req =
     (if fresh (version lib) (req_headers req) (Some (etag_fn lib greeting))
      then \<lparr>statusCode = 304, content_type = None, body = []\<rparr>
      else \<lparr>statusCode = 200, content_type = Some ''text/html; charset=utf-8'', body = greeting\<rparr>)"
  by (simp add: app_handle_def layer_match_def handles_method_def root_handler_cases
      split: express_version.split)





lemma expect_foo: "expectation_failed get_root_expect"
  by (simp add: expectation_failed_def get_root_expect_def continueExpression_def word_char_def)

lemma no_expect: "map_of (req_headers req) ''expect'' = None \<Longrightarrow> \<not> expectation_failed req"
  by (simp add: expectation_failed_def)


section \<open>The configured port\<close>

text \<open>
  Claim C2, as amended: for every environment in which \<^verbatim>\<open>PORT\<close> is absent or is
  the empty string, the configured port is the default 8080, and \<^verbatim>\<open>app.listen\<close> is
  called with it without error.
\<close>

theorem C2_absent_port_default:
  assumes "env ''PORT'' = None \<or> env ''PORT'' = Some []"
  shows "PORT_of env = JSNumber 8080 \<and> listen_args (main lib env) = [JSNumber 8080] \<and>
         phase (main lib env) = Starting \<and> uncaught (main lib env) = []"
  using assms PORT_of_default [of env] by (simp add: main_default)

theorem C2_absent_port_default_witness:
  "PORT_of Map.empty = JSNumber 8080 \<and> PORT_of [''PORT'' \<mapsto> []] = JSNumber 8080 \<and>
   listen_args (main express4 Map.empty) = [JSNumber 8080] \<and>
   phase (main express4 Map.empty) = Starting \<and> uncaught (main express4 Map.empty) = [] \<and>
   phase (main express4 [''PORT'' \<mapsto> []]) = Starting"
proof -
  have h: "(Map.empty :: environment) ''PORT'' = None \<or> (Map.empty :: environment) ''PORT'' = Some []"
    by simp
  have k: "[''PORT'' \<mapsto> []] ''PORT'' = None \<or> [''PORT'' \<mapsto> []] ''PORT'' = Some []"
    by simp
  from h k C2_absent_port_default [of Map.empty express4]
    C2_absent_port_default [of "[''PORT'' \<mapsto> []]" express4]
  show ?thesis by simp
qed

text \<open>
  Claim C2 as stated fails on a non-numeric value that is not empty: with
  \<^verbatim>\<open>PORT=abc\<close> the configured port is the string \<^verbatim>\<open>"abc"\<close>, not 8080.
\<close>

theorem C2_counterexample:
  "PORT_of [''PORT'' \<mapsto> ''abc''] = JSString ''abc'' \<and>
   PORT_of [''PORT'' \<mapsto> ''abc''] \<noteq> JSNumber 8080"
  by (simp add: PORT_of_def env_get_def js_or_def)

text \<open>
  Claim C10: when \<^verbatim>\<open>PORT\<close> is the empty string the configured port is the default
  8080; when it is a non-empty string, that exact string, numeric or not, is the
  configured port and the value passed to \<^verbatim>\<open>app.listen\<close>.
\<close>

theorem C10_port_string_passed_unchanged:
  "(env ''PORT'' = Some [] \<longrightarrow> PORT_of env = JSNumber 8080) \<and>
   (env ''PORT'' = Some s \<and> s \<noteq> [] \<longrightarrow>
      PORT_of env = JSString s \<and> listen_args (main lib env) = [JSString s])"
  by (simp add: PORT_of_def env_get_def js_or_def main_def)

theorem C10_port_string_passed_unchanged_witness:
  "PORT_of [''PORT'' \<mapsto> []] = JSNumber 8080 \<and>
   PORT_of [''PORT'' \<mapsto> ''80a''] = JSString ''80a'' \<and>
   listen_args (main express4 [''PORT'' \<mapsto> ''80a'']) = [JSString ''80a'']"
  using C10_port_string_passed_unchanged [of "[''PORT'' \<mapsto> []]" "[]"]
    C10_port_string_passed_unchanged [of "[''PORT'' \<mapsto> ''80a'']" "''80a''" express4]
  by simp

section \<open>The route\<close>

text \<open>
  Claim C1, as amended: for every request with method GET and path \<^verbatim>\<open>/\<close> that the
  HTTP parser accepts, the server responds with status 200 and the exact body
  \<^verbatim>\<open>Hello from Node.js app in Kubernetes!\<close>, with two exceptions, both answered with
  an empty body: an HTTP/1.1 request with an \<^verbatim>\<open>Expect\<close> header other than
  \<^verbatim>\<open>100-continue\<close> gets 417, and otherwise a conditional request that Express finds
  fresh gets 304. In particular, every such request with neither an \<^verbatim>\<open>Expect\<close> nor
  an \<^verbatim>\<open>If-None-Match\<close> header gets 200 and the exact body.
\<close>

theorem C1_get_root_response:
  assumes "parse_error lib req = None" and "req_method req = GET" and "req_path req = ''/''"
  shows "server_handle lib req =
           Some (if expectation_failed req
                 then \<lparr>statusCode = 417, content_type = None, body = []\<rparr>
                 else if fresh (version lib) (req_headers req)
                           (Some (etag_fn lib ''Hello from Node.js app in Kubernetes!''))
                 then \<lparr>statusCode = 304, content_type = None, body = []\<rparr>
                 else \<lparr>statusCode = 200, content_type = Some ''text/html; charset=utf-8'',
                        body = ''Hello from Node.js app in Kubernetes!''\<rparr>) \<and>
         (map_of (req_headers req) ''expect'' = None \<and>
          \<not> given (map_of (req_headers req) ''if-none-match'') \<longrightarrow>
            server_handle lib req =
              Some \<lparr>statusCode = 200, content_type = Some ''text/html; charset=utf-8'',
                    body = ''Hello from Node.js app in Kubernetes!''\<rparr>) \<and>
         (map_of (req_headers req) ''expect'' = None \<and>
          map_of (req_headers req) ''if-none-match'' = Some ''*'' \<and>
          map_of (req_headers req) ''cache-control'' = None \<and>
          map_of (req_headers req) ''if-modified-since'' = None \<longrightarrow>
            server_handle lib req = Some \<lparr>statusCode = 304, content_type = None, body = []\<rparr>) \<and>
         (req_version req = (1, 1) \<and> map_of (req_headers req) ''expect'' = Some ''foo'' \<longrightarrow>
            server_handle lib req = Some \<lparr>statusCode = 417, content_type = None, body = []\<rparr>)"
proof -
  let ?gone = "\<lparr>statusCode = 304, content_type = None, body = []\<rparr>"
  let ?ok = "\<lparr>statusCode = 200, content_type = Some ''text/html; charset=utf-8'',
              body = ''Hello from Node.js app in Kubernetes!''\<rparr>"
  let ?fresh = "fresh (version lib) (req_headers req)
      (Some (etag_fn lib ''Hello from Node.js app in Kubernetes!''))"
  have all: "server_handle lib req =
      Some (if expectation_failed req
            then \<lparr>statusCode = 417, content_type = None, body = []\<rparr>
            else if ?fresh then ?gone else ?ok)"
    using assms
    by (simp add: server_handle_def node_response_def app_handle_get_root greeting_def)
  have plain: "server_handle lib req = Some ?ok"
    if "map_of (req_headers req) ''expect'' = None"
      "\<not> given (map_of (req_headers req) ''if-none-match'')"
    using all that no_expect [of req]
      fresh_without_if_none_match [of "req_headers req" "version lib"]
    by simp
  have star: "server_handle lib req = Some ?gone"
    if "map_of (req_headers req) ''expect'' = None"
      "map_of (req_headers req) ''if-none-match'' = Some ''*''"
      "map_of (req_headers req) ''cache-control'' = None"
      "map_of (req_headers req) ''if-modified-since'' = None"
  proof -
    have "?fresh" using that(2-4) by (simp add: fresh_char)
    with all that(1) no_expect [of req] show ?thesis by simp
  qed
  have foo: "server_handle lib req = Some \<lparr>statusCode = 417, content_type = None, body = []\<rparr>"
    if "req_version req = (1, 1)" "map_of (req_headers req) ''expect'' = Some ''foo''"
  proof -
    have "expectation_failed req"
      using that by (simp add: expectation_failed_def continueExpression_def word_char_def)
    with all show ?thesis by simp
  qed
  from all plain star foo show ?thesis by blast
qed

theorem C1_get_root_response_witness:
  "parse_error express5 get_root = None \<and> req_method get_root = GET \<and>
   req_path get_root = ''/'' \<and>
   server_handle express5 get_root =
     Some \<lparr>statusCode = 200, content_type = Some ''text/html; charset=utf-8'',
           body = ''Hello from Node.js app in Kubernetes!''\<rparr> \<and>
   server_handle express5 get_root_if_none_match =
     Some \<lparr>statusCode = 304, content_type = None, body = []\<rparr> \<and>
   server_handle express5 get_root_expect =
     Some \<lparr>statusCode = 417, content_type = None, body = []\<rparr>"
proof -
  have h: "parse_error express5 get_root = None" "req_method get_root = GET"
    "req_path get_root = ''/''"
    by (simp_all add: get_root_def express5_def parser_plain_def)
  have e: "map_of (req_headers get_root) ''expect'' = None \<and>
      \<not> given (map_of (req_headers get_root) ''if-none-match'')"
    by (simp add: get_root_def)
  have a: "server_handle express5 get_root =
      Some \<lparr>statusCode = 200, content_type = Some ''text/html; charset=utf-8'',
            body = ''Hello from Node.js app in Kubernetes!''\<rparr>"
    using C1_get_root_response [OF h, THEN conjunct2, THEN conjunct1] e by (rule mp)
  have h2: "parse_error express5 get_root_if_none_match = None"
    "req_method get_root_if_none_match = GET" "req_path get_root_if_none_match = ''/''"
    by (simp_all add: get_root_if_none_match_def express5_def parser_plain_def)
  have e2: "map_of (req_headers get_root_if_none_match) ''expect'' = None \<and>
      map_of (req_headers get_root_if_none_match) ''if-none-match'' = Some ''*'' \<and>
      map_of (req_headers get_root_if_none_match) ''cache-control'' = None \<and>
      map_of (req_headers get_root_if_none_match) ''if-modified-since'' = None"
    by (simp add: get_root_if_none_match_def)
  have b: "server_handle express5 get_root_if_none_match =
      Some \<lparr>statusCode = 304, content_type = None, body = []\<rparr>"
    using C1_get_root_response [OF h2, THEN conjunct2, THEN conjunct2, THEN conjunct1] e2
    by (rule mp)
  have h3: "parse_error express5 get_root_expect = None"
    "req_method get_root_expect = GET" "req_path get_root_expect = ''/''"
    by (simp_all add: get_root_expect_def express5_def parser_plain_def)
  have e3: "req_version get_root_expect = (1, 1) \<and>
      map_of (req_headers get_root_expect) ''expect'' = Some ''foo''"
    by (simp add: get_root_expect_def)
  have c: "server_handle express5 get_root_expect =
      Some \<lparr>statusCode = 417, content_type = None, body = []\<rparr>"
    using C1_get_root_response [OF h3, THEN conjunct2, THEN conjunct2, THEN conjunct2] e3
    by (rule mp)
  from h a b c show ?thesis by simp
qed

text \<open>
  Claim C1 as stated fails on a conditional request and on an unsupported expectation:
  GET \<^verbatim>\<open>/\<close> with the header \<^verbatim>\<open>If-None-Match: *\<close> is answered 304, by either
  version of Express, and GET \<^verbatim>\<open>/\<close> with \<^verbatim>\<open>Expect: foo\<close> is answered 417; both
  with an empty body.
\<close>

theorem C1_counterexample:
  "server_handle express4 get_root_if_none_match =
     Some \<lparr>statusCode = 304, content_type = None, body = []\<rparr> \<and>
   server_handle express5 get_root_if_none_match =
     Some \<lparr>statusCode = 304, content_type = None, body = []\<rparr> \<and>
   server_handle express4 get_root_expect =
     Some \<lparr>statusCode = 417, content_type = None, body = []\<rparr>"
proof -
  have a: "server_handle express4 get_root_if_none_match =
      Some \<lparr>statusCode = 304, content_type = None, body = []\<rparr>"
    by (simp add: server_handle_def expectation_failed_def app_handle_get_root
        get_root_if_none_match_def express4_def parser_plain_def fresh_def)
  have b: "server_handle express5 get_root_if_none_match =
      Some \<lparr>statusCode = 304, content_type = None, body = []\<rparr>"
    by (simp add: server_handle_def expectation_failed_def app_handle_get_root
        get_root_if_none_match_def express5_def parser_plain_def fresh_def)
  have "parse_error express4 get_root_expect = None" "req_method get_root_expect \<noteq> CONNECT"
    by (simp_all add: get_root_expect_def express4_def parser_plain_def)
  then have c: "server_handle express4 get_root_expect =
      Some \<lparr>statusCode = 417, content_type = None, body = []\<rparr>"
    using expect_foo by (simp add: server_handle_def node_response_def)
  from a b c show ?thesis by simp
qed

text \<open>
  Claim C3, as amended: every response to GET \<^verbatim>\<open>/\<close> with status 200 carries the
  header \<^verbatim>\<open>Content-Type: text/html; charset=utf-8\<close>, and a response with another
  status (304) carries no \<^verbatim>\<open>Content-Type\<close>.
\<close>

theorem C3_content_type_of_get_root:
  assumes "req_method req = GET" and "req_path req = ''/''"
  shows "content_type (app_handle lib req) =
           (if statusCode (app_handle lib req) = 200
            then Some ''text/html; charset=utf-8'' else None)"
  using assms by (simp add: app_handle_get_root)

theorem C3_content_type_of_get_root_witness:
  "req_method get_root = GET \<and> req_path get_root = ''/'' \<and>
   statusCode (app_handle express4 get_root) = 200 \<and>
   content_type (app_handle express4 get_root) = Some ''text/html; charset=utf-8''"
proof -
  have h: "req_method get_root = GET" "req_path get_root = ''/''"
    by (simp_all add: get_root_def)
  have s: "statusCode (app_handle express4 get_root) = 200"
    by (simp add: app_handle_get_root h fresh_def get_root_def)
  from C3_content_type_of_get_root [OF h, of express4] h s show ?thesis by simp
qed

text \<open>
  Claim C3 as stated fails on the plain request: the \<^verbatim>\<open>Content-Type\<close> of the
  response to GET \<^verbatim>\<open>/\<close> is \<^verbatim>\<open>text/html; charset=utf-8\<close>, not
  \<^verbatim>\<open>text/plain\<close>.
\<close>

theorem C3_counterexample:
  "content_type (app_handle express4 get_root) = Some ''text/html; charset=utf-8'' \<and>
   content_type (app_handle express5 get_root) = Some ''text/html; charset=utf-8''"
  by (simp add: app_handle_get_root get_root_def express4_def express5_def fresh_def)

text \<open>
  Claim C6, as amended: any two GET \<^verbatim>\<open>/\<close> requests of the same HTTP version that
  the HTTP parser accepts and that differ only in their query string and in headers
  other than \<^verbatim>\<open>Expect\<close>, \<^verbatim>\<open>If-None-Match\<close>, \<^verbatim>\<open>If-Modified-Since\<close> and
  \<^verbatim>\<open>Cache-Control\<close> get the same response; the response does not depend on the
  query string or on any other header.
\<close>

theorem C6_response_independent_of_query_and_other_headers:
  assumes "req_method r1 = GET" and "req_path r1 = ''/''"
    and "req_method r2 = GET" and "req_path r2 = ''/''"
    and "req_version r1 = req_version r2"
    and "parse_error lib r1 = None" and "parse_error lib r2 = None"
    and "\<forall>h \<in> set [''expect'', ''if-none-match'', ''if-modified-since'', ''cache-control''].
           map_of (req_headers r1) h = map_of (req_headers r2) h"
  shows "server_handle lib r1 = server_handle lib r2"
proof -
  have f: "fresh (version lib) (req_headers r1) (Some (etag_fn lib greeting)) =
        fresh (version lib) (req_headers r2) (Some (etag_fn lib greeting))"
    using assms(8) by (intro fresh_cong) simp_all
  have e: "expectation_failed r1 = expectation_failed r2"
    using assms(5,8) by (simp add: expectation_failed_def)
  from f e show ?thesis
    using assms(1-4,6,7) by (simp add: server_handle_def app_handle_get_root)
qed

theorem C6_response_independent_of_query_and_other_headers_witness:
  "server_handle express4 get_root_with_query_and_agent = server_handle express4 get_root \<and>
   server_handle express4 get_root =
     Some \<lparr>statusCode = 200, content_type = Some ''text/html; charset=utf-8'',
           body = ''Hello from Node.js app in Kubernetes!''\<rparr>"
proof -
  have h: "req_method get_root_with_query_and_agent = GET"
    "req_path get_root_with_query_and_agent = ''/''"
    "req_method get_root = GET" "req_path get_root = ''/''"
    "req_version get_root_with_query_and_agent = req_version get_root"
    "parse_error express4 get_root_with_query_and_agent = None"
    "parse_error express4 get_root = None"
    "\<forall>h \<in> set [''expect'', ''if-none-match'', ''if-modified-since'', ''cache-control''].
       map_of (req_headers get_root_with_query_and_agent) h = map_of (req_headers get_root) h"
    by (simp_all add: get_root_def get_root_with_query_and_agent_def express4_def
        parser_plain_def)
  have s: "server_handle express4 get_root =
      Some \<lparr>statusCode = 200, content_type = Some ''text/html; charset=utf-8'',
            body = ''Hello from Node.js app in Kubernetes!''\<rparr>"
    by (simp add: server_handle_def expectation_failed_def app_handle_get_root get_root_def
        express4_def parser_plain_def fresh_def greeting_def)
  from C6_response_independent_of_query_and_other_headers [OF h] s
  show ?thesis by simp
qed

text \<open>
  Claim C6 as stated fails on GET \<^verbatim>\<open>/\<close> requests that differ only in one header:
  with no header the status is 200 and the body the greeting, with
  \<^verbatim>\<open>If-None-Match: *\<close> the status is 304 and with \<^verbatim>\<open>Expect: foo\<close> it is 417,
  both with an empty body.
\<close>

theorem C6_counterexample:
  "get_root_if_none_match = get_root\<lparr>req_headers := [(''if-none-match'', ''*'')]\<rparr> \<and>
   get_root_expect = get_root\<lparr>req_headers := [(''expect'', ''foo'')]\<rparr> \<and>
   server_handle express4 get_root =
     Some \<lparr>statusCode = 200, content_type = Some ''text/html; charset=utf-8'',
           body = ''Hello from Node.js app in Kubernetes!''\<rparr> \<and>
   server_handle express4 get_root_if_none_match =
     Some \<lparr>statusCode = 304, content_type = None, body = []\<rparr> \<and>
   server_handle express4 get_root_expect =
     Some \<lparr>statusCode = 417, content_type = None, body = []\<rparr>"
proof -
  have a: "server_handle express4 get_root =
      Some \<lparr>statusCode = 200, content_type = Some ''text/html; charset=utf-8'',
            body = ''Hello from Node.js app in Kubernetes!''\<rparr>"
    by (simp add: server_handle_def expectation_failed_def app_handle_get_root get_root_def
        express4_def parser_plain_def fresh_def greeting_def)
  have b: "server_handle express4 get_root_if_none_match =
      Some \<lparr>statusCode = 304, content_type = None, body = []\<rparr>"
    by (simp add: server_handle_def expectation_failed_def app_handle_get_root
        get_root_if_none_match_def express4_def parser_plain_def fresh_def)
  have "parse_error express4 get_root_expect = None" "req_method get_root_expect \<noteq> CONNECT"
    by (simp_all add: get_root_expect_def express4_def parser_plain_def)
  then have c: "server_handle express4 get_root_expect =
      Some \<lparr>statusCode = 417, content_type = None, body = []\<rparr>"
    using expect_foo by (simp add: server_handle_def node_response_def)
  from a b c show ?thesis
    by (simp add: get_root_def get_root_if_none_match_def get_root_expect_def)
qed




section \<open>The life of the process\<close>

text \<open>
  Claim C7: the configuration is read once, when the module runs, and no operation of
  the service changes it: after any sequence of events the constant \<^verbatim>\<open>PORT\<close> still
  has the value computed from the environment at the start, and a plain GET \<^verbatim>\<open>/\<close>
  is still answered with the same body.
\<close>

theorem C7_configuration_never_changes:
  "PORT (main lib env) = PORT_of env \<and>
   PORT (step lib p ev) = PORT p \<and>
   PORT (run lib (main lib env) evs) = PORT_of env \<and>
   body (app_handle lib get_root) = greeting"
  by (simp add: run_PORT step_PORT main_def app_handle_get_root get_root_def fresh_def)




text \<open>
  Claim C5, as amended: \<^verbatim>\<open>app.listen\<close> is called once and never again, whatever
  happens; if binding fails under Express 4, the process exits with status 1 after the
  runtime has reported the bind error as an uncaught error, with nothing written to
  standard output; and once the service has started, no exit has status 0.
\<close>

theorem C5_bind_failure_exit:
  "(version lib = Express4 \<and> phase (main lib env) = Starting \<longrightarrow>
      phase (step lib (main lib env) (ListenError e)) = Exited 1 \<and>
      uncaught (step lib (main lib env) (ListenError e)) = [ListenFailed e] \<and>
      stdout (step lib (main lib env) (ListenError e)) = []) \<and>
   listen_args (run lib (main lib env) evs) = [PORT_of env] \<and>
   (binds (listen_target lib (PORT_of env)) a \<longrightarrow>
      phase (run lib (main lib env) (Listening a # evs)) \<noteq> Exited 0)"
proof -
  have one: "listen_args (run lib (main lib env) evs) = [PORT_of env]"
    by (simp add: run_listen_args main_def)
  have fail: "phase (step lib (main lib env) (ListenError e)) = Exited 1 \<and>
      uncaught (step lib (main lib env) (ListenError e)) = [ListenFailed e] \<and>
      stdout (step lib (main lib env) (ListenError e)) = []"
    if "version lib = Express4" "phase (main lib env) = Starting"
    using that by (simp add: step_def main_def split: if_splits)
  have up: "phase (run lib (main lib env) (Listening a # evs)) \<noteq> Exited 0"
    if b: "binds (listen_target lib (PORT_of env)) a"
  proof -
    let ?p = "step lib (main lib env) (Listening a)"
    have "phase ?p = Serving \<or> (\<exists>s. phase ?p = Exited (128 + signum s))"
      by (simp add: started [OF b])
    from run_serving_out [OF this, of lib evs] show ?thesis by auto
  qed
  from one fail up show ?thesis by blast
qed

theorem C5_bind_failure_exit_witness:
  "version express4 = Express4 \<and> phase (main express4 Map.empty) = Starting \<and>
   phase (step express4 (main express4 Map.empty) (ListenError EADDRINUSE)) = Exited 1 \<and>
   uncaught (step express4 (main express4 Map.empty) (ListenError EADDRINUSE)) =
     [ListenFailed EADDRINUSE] \<and>
   listen_args (run express4 (main express4 Map.empty)
     [ListenError EADDRINUSE, Listening (TcpAddress 8080)]) = [JSNumber 8080] \<and>
   binds (listen_target express4 (PORT_of Map.empty)) (TcpAddress 8080) \<and>
   phase (run express4 (main express4 Map.empty)
     [Listening (TcpAddress 8080), ListenError EADDRINUSE, Listening (TcpAddress 8080)]) \<noteq> Exited 0"
proof -
  have v: "version express4 = Express4" by (simp add: express4_def)
  have p: "PORT_of Map.empty = JSNumber 8080" by (simp add: PORT_of_default)
  have s: "phase (main express4 Map.empty) = Starting" by (simp add: main_default p)
  have b: "binds (listen_target express4 (PORT_of Map.empty)) (TcpAddress 8080)"
    by (simp add: p listen_target_default)
  from C5_bind_failure_exit [of express4 Map.empty EADDRINUSE
      "[ListenError EADDRINUSE, Listening (TcpAddress 8080)]" "TcpAddress 8080"]
    v p s b show ?thesis by simp
qed

text \<open>
  Claim C5 as stated fails twice. Under Express 5 a bind failure ends the process with
  status 0, after the callback has written its usual line, and no error is reported.
  And a shutdown by SIGINT or SIGTERM has status 130 or 143, not 0.
\<close>

theorem C5_counterexample:
  "run express5 (main express5 Map.empty) [ListenError EADDRINUSE] =
     \<lparr>PORT = JSNumber 8080, phase = Exited 0, listen_args = [JSNumber 8080], bound = None,
      stdout = [''Server running on port 8080''], uncaught = [], sent = []\<rparr> \<and>
   phase (run express4 (main express4 Map.empty) [Listening (TcpAddress 8080), Signal SIGINT])
     = Exited 130 \<and>
   phase (run express5 (main express5 Map.empty) [Listening (TcpAddress 8080), Signal SIGTERM])
     = Exited 143"
proof -
  have p: "PORT_of Map.empty = JSNumber 8080" by (simp add: PORT_of_default)
  have b: "binds (listen_target lib (PORT_of Map.empty)) (TcpAddress 8080)" for lib
    by (simp add: p listen_target_default)
  show ?thesis
    by (simp add: started [OF b] main_default p)
      (simp add: step_def listen_callback_def express5_def show_nat_8080)
qed

text \<open>
  Claim C9, as amended: on a termination signal (SIGINT or SIGTERM) the process, which
  installs no handler, exits at once with status 128 + the signal number; it sends no
  further response; and no later event, a second signal included, changes anything.
\<close>

theorem C9_signal_exits_at_once:
  assumes "phase p = Starting \<or> phase p = Serving"
  shows "phase (step lib p (Signal s)) = Exited (128 + signum s) \<and>
         sent (step lib p (Signal s)) = sent p \<and>
         run lib (step lib p (Signal s)) evs = step lib p (Signal s)"
proof -
  have e: "phase (step lib p (Signal s)) = Exited (128 + signum s)"
    using assms by (auto simp add: step_def)
  have "sent (step lib p (Signal s)) = sent p"
    using assms by (auto simp add: step_def)
  with e run_exited [OF e] show ?thesis by simp
qed

theorem C9_signal_exits_at_once_witness:
  "phase (run express4 (main express4 Map.empty) [Listening (TcpAddress 8080)]) = Serving \<and>
   phase (run express4 (main express4 Map.empty) [Listening (TcpAddress 8080), Signal SIGTERM])
     = Exited 143 \<and>
   run express4 (main express4 Map.empty)
     [Listening (TcpAddress 8080), Signal SIGTERM, Signal SIGTERM, Request get_root] =
   run express4 (main express4 Map.empty) [Listening (TcpAddress 8080), Signal SIGTERM]"
proof -
  have b: "binds (listen_target express4 (PORT_of Map.empty)) (TcpAddress 8080)"
    by (simp add: PORT_of_default listen_target_default)
  have h: "phase (run express4 (main express4 Map.empty) [Listening (TcpAddress 8080)]) = Serving"
    by (simp add: started [OF b])
  then have d: "phase (run express4 (main express4 Map.empty) [Listening (TcpAddress 8080)]) = Starting \<or>
      phase (run express4 (main express4 Map.empty) [Listening (TcpAddress 8080)]) = Serving" ..
  from C9_signal_exits_at_once [OF d, of express4 SIGTERM "[Signal SIGTERM, Request get_root]"] h
  show ?thesis by simp
qed

text \<open>
  Claim C9 as stated fails on a signal that arrives while the service is serving: the
  exit status is 143, not 0.
\<close>

theorem C9_counterexample:
  "phase (run express4 (main express4 Map.empty)
     [Listening (TcpAddress 8080), Request get_root, Signal SIGTERM]) = Exited 143 \<and>
   phase (run express4 (main express4 Map.empty)
     [Listening (TcpAddress 8080), Request get_root, Signal SIGTERM]) \<noteq> Exited 0"
proof -
  have b: "binds (listen_target express4 (PORT_of Map.empty)) (TcpAddress 8080)"
    by (simp add: PORT_of_default listen_target_default)
  show ?thesis
    by (simp add: started [OF b]) (simp add: step_def split: option.split)
qed

end
